theory Spec2Isabelle
  imports Main
begin

section \<open>JavaScript values\<close>

text \<open>
  The values that travel through the client: request options, request configurations and
  decoded JSON bodies. A plain object is an association list in property order; an array is
  a list. \<open>JFormData\<close> is a multipart form with its appended fields, \<open>JHost\<close> any other
  host object (a Blob, a File, an AbortSignal, ...), known by its identity only. Both are
  objects that are not plain objects. Numbers are integers: the client never computes with
  them, it only passes them on.
\<close>

datatype jsval =
    JUndefined
  | JNull
  | JBool bool
  | JNum int
  | JStr string
  | JObj "(string \<times> jsval) list"
  | JArr "jsval list"
  | JFormData "(string \<times> jsval) list"
  | JHost nat

type_synonym props = "(string \<times> jsval) list"

section \<open>Transport responses and promises\<close>

text \<open>
  The transport (\<open>fetch\<close>) is not part of the module. Of its response object the module
  reads \<open>response.headers.get(name)\<close> (\<open>None\<close> stands for \<open>null\<close>), \<open>response.ok\<close> and
  \<open>response.json()\<close>. The field \<open>json\<close> is what the promise of \<open>response.json()\<close> settles
  to: \<open>Inr\<close> the decoded value, \<open>Inl\<close> the reason when the body does not decode.
\<close>

record response =
  headers_get :: "string \<Rightarrow> string option"
  status :: nat
  json :: "string + jsval"

text \<open>
  Modelled from the spec: the getter \<open>response.ok\<close> of the transport, "the transport status
  is in the success range (2xx)".
\<close>

definition ok :: "response \<Rightarrow> bool" where
  "ok r = (200 \<le> status r \<and> status r \<le> 299)"

text \<open>What a promise of the client settles with, on either path.\<close>

datatype payload = Json jsval | Raw response | Failure string

text \<open>
  Modelled from the spec: the promise of the runtime (\<open>babel-runtime/core-js/promise\<close>), as
  the state it settles in. \<open>then_p\<close> is \<open>p.then(f)\<close> with one callback: a rejection passes
  through, and a callback that returns a promise is flattened.
\<close>

datatype 'a promise = Resolved 'a | Rejected payload

fun then_p :: "'a promise \<Rightarrow> ('a \<Rightarrow> 'b promise) \<Rightarrow> 'b promise" where
  "then_p (Resolved x) f = f x"
| "then_p (Rejected e) f = Rejected e"

definition json_promise :: "response \<Rightarrow> jsval promise" where
  "json_promise r = (case json r of Inl e \<Rightarrow> Rejected (Failure e) | Inr j \<Rightarrow> Resolved j)"

section \<open>isJsonResponse\<close>

text \<open>
  Header values are byte strings, one \<open>char\<close> per byte, read as Latin-1.
  \<open>toLowerCase\<close> maps the upper-case letters of that range (A-Z, and U+00C0-U+00DE without
  the multiplication sign U+00D7) to the letter 32 places further.
\<close>

definition toLowerCase_char :: "char \<Rightarrow> char" where
  "toLowerCase_char c =
     (let n = (of_char c :: nat)
      in if (65 \<le> n \<and> n \<le> 90) \<or> (192 \<le> n \<and> n \<le> 222 \<and> n \<noteq> 215)
         then char_of (n + 32) else c)"

definition toLowerCase :: "string \<Rightarrow> string" where
  "toLowerCase s = map toLowerCase_char s"

text \<open>\<open>s.split(sep)\<close> for a separator of one character, and \<open>pieces.join(sep)\<close>.\<close>

fun split_js :: "char \<Rightarrow> string \<Rightarrow> string list" where
  "split_js sep [] = [[]]"
| "split_js sep (c # cs) =
     (if c = sep then [] # split_js sep cs
      else (case split_js sep cs of
              [] \<Rightarrow> [[c]]
            | p # ps \<Rightarrow> (c # p) # ps))"

fun join_js :: "string \<Rightarrow> string list \<Rightarrow> string" where
  "join_js sep [] = []"
| "join_js sep [p] = p"
| "join_js sep (p # q # ps) = p @ sep @ join_js sep (q # ps)"

definition normalizedContentType :: "string \<Rightarrow> string" where
  "normalizedContentType contentType =
     join_js [] (split_js (CHR 0x22) (join_js [] (split_js CHR '' '' (toLowerCase contentType))))"

definition isJsonResponse :: "response \<Rightarrow> bool" where
  "isJsonResponse r =
     (case headers_get r ''content-type'' of
        None \<Rightarrow> False
      | Some contentType \<Rightarrow>
          if contentType = [] then False
          else normalizedContentType contentType = ''application/json''
               \<or> normalizedContentType contentType = ''application/json;charset=utf-8'')"

section \<open>handleResponse\<close>

definition handleResponse :: "response \<Rightarrow> payload promise" where
  "handleResponse r =
     (if isJsonResponse r
      then then_p (json_promise r)
             (\<lambda>j. if ok r then Resolved (Json j) else Rejected (Json j))
      else (if ok r then Resolved (Raw r) else Rejected (Raw r)))"

section \<open>Merging request options\<close>

text \<open>
  Modelled from the spec: \<open>merge\<close> of lodash, which the module imports: "start from
  \<open>{method}\<close>, then deep-merge \<open>DefaultOptions\<close>, then deep-merge caller-supplied \<open>options\<close>
  (later layers overriding earlier on a per-key basis, with mapping values merged
  recursively rather than replaced)". The library documents the merge so: "Source
  properties that resolve to undefined are skipped if a destination value exists. Array
  and plain object properties are merged recursively. Other objects and value types are
  overridden by assignment. Source objects are applied from left to right."

  The definitions carry the names of the library's functions; \<open>baseMergeArray\<close> is
  \<open>baseMerge\<close> for two arrays, index by index. For each key of the source in turn: a source
  value that is an array or a plain object is merged recursively into the destination's
  value when that is an object, and into a fresh \<open>[]\<close> or \<open>{}\<close> otherwise; any other source
  value is assigned, except that \<open>undefined\<close> does not replace a key the destination has.

  A merge is a value here, so \<open>eq\<close> of two objects is equality of their contents; assigning
  an equal value changes nothing. \<open>key in object\<close> looks at own properties only.

  The result \<open>None\<close> marks the merges this model does not describe: a plain object merged
  into an array or into a host object (the library adds named properties to them), and
  an array merged into an array-like or host object.
\<close>

definition isObject :: "jsval \<Rightarrow> bool" where
  "isObject v =
     (case v of JObj _ \<Rightarrow> True | JArr _ \<Rightarrow> True | JFormData _ \<Rightarrow> True
      | JHost _ \<Rightarrow> True | _ \<Rightarrow> False)"

definition safeGet :: "props \<Rightarrow> string \<Rightarrow> jsval" where
  "safeGet object key = (case map_of object key of None \<Rightarrow> JUndefined | Some v \<Rightarrow> v)"

fun baseAssignValue :: "props \<Rightarrow> string \<Rightarrow> jsval \<Rightarrow> props" where
  "baseAssignValue [] key value = [(key, value)]"
| "baseAssignValue ((k, v) # object) key value =
     (if k = key then (key, value) # object else (k, v) # baseAssignValue object key value)"

definition assignMergeValue :: "props \<Rightarrow> string \<Rightarrow> jsval \<Rightarrow> props" where
  "assignMergeValue object key value =
     (if (value \<noteq> JUndefined \<and> safeGet object key \<noteq> value)
         \<or> (value = JUndefined \<and> map_of object key = None)
      then baseAssignValue object key value else object)"

definition isArrayLike :: "props \<Rightarrow> bool" where
  "isArrayLike object =
     (case map_of object ''length'' of
        Some (JNum n) \<Rightarrow> 0 \<le> n \<and> n \<le> 9007199254740991
      | _ \<Rightarrow> False)"

fun baseMerge :: "props \<Rightarrow> props \<Rightarrow> props option"
  and baseMergeDeep :: "jsval \<Rightarrow> jsval \<Rightarrow> jsval option"
  and baseMergeArray :: "jsval list \<Rightarrow> jsval list \<Rightarrow> jsval list option"
where
  "baseMerge object [] = Some object"
| "baseMerge object ((key, srcValue) # source) =
     (if isObject srcValue
      then (case baseMergeDeep (safeGet object key) srcValue of
              None \<Rightarrow> None
            | Some newValue \<Rightarrow> baseMerge (assignMergeValue object key newValue) source)
      else baseMerge (assignMergeValue object key srcValue) source)"
| "baseMergeDeep objValue (JArr source) =
     (case objValue of
        JArr object \<Rightarrow> map_option JArr (baseMergeArray object source)
      | JObj object \<Rightarrow>
          if isArrayLike object then None else map_option JArr (baseMergeArray [] source)
      | JFormData _ \<Rightarrow> None
      | JHost _ \<Rightarrow> None
      | _ \<Rightarrow> map_option JArr (baseMergeArray [] source))"
| "baseMergeDeep objValue (JObj source) =
     (case objValue of
        JObj object \<Rightarrow> map_option JObj (baseMerge object source)
      | JArr _ \<Rightarrow> None
      | JFormData _ \<Rightarrow> None
      | JHost _ \<Rightarrow> None
      | _ \<Rightarrow> map_option JObj (baseMerge [] source))"
| "baseMergeDeep objValue srcValue = Some srcValue"
| "baseMergeArray object [] = Some object"
| "baseMergeArray [] (srcValue # source) =
     (case (if isObject srcValue then baseMergeDeep JUndefined srcValue else Some srcValue) of
        None \<Rightarrow> None
      | Some newValue \<Rightarrow> map_option ((#) newValue) (baseMergeArray [] source))"
| "baseMergeArray (objValue # object) (srcValue # source) =
     (case (if isObject srcValue then baseMergeDeep objValue srcValue
            else if srcValue = JUndefined then Some objValue else Some srcValue) of
        None \<Rightarrow> None
      | Some newValue \<Rightarrow> map_option ((#) newValue) (baseMergeArray object source))"

text \<open>\<open>merge(object, ...sources)\<close>: the sources from left to right, one that is \<open>undefined\<close> skipped.\<close>

fun merge :: "props \<Rightarrow> props option list \<Rightarrow> props option" where
  "merge object [] = Some object"
| "merge object (None # sources) = merge object sources"
| "merge object (Some source # sources) =
     (case baseMerge object source of
        None \<Rightarrow> None
      | Some object' \<Rightarrow> merge object' sources)"

definition defaultOptions :: props where
  "defaultOptions =
     [(''headers'', JObj [(''Accept'', JStr ''application/json''),
                          (''Content-Type'', JStr ''application/json''),
                          (''X-Requested-With'', JStr ''XMLHttpRequest'')]),
      (''credentials'', JStr ''same-origin'')]"

definition mergeOptions :: "string \<Rightarrow> props option \<Rightarrow> props option" where
  "mergeOptions method options = merge [(''method'', JStr method)] [Some defaultOptions, options]"

section \<open>The five operations\<close>

text \<open>
  \<open>fetch\<close> is the transport, a parameter of every operation: given the url and the request
  configuration it answers with the promise of a response, rejected when the transport
  fails. An operation is \<open>None\<close> where the merge of its options is.
\<close>

type_synonym fetch = "string \<Rightarrow> props \<Rightarrow> response promise"

definition get :: "fetch \<Rightarrow> string \<Rightarrow> props option \<Rightarrow> payload promise option" where
  "get fetch url options' =
     (case mergeOptions ''GET'' options' of
        None \<Rightarrow> None
      | Some options \<Rightarrow>
          Some (then_p (then_p (fetch url options) handleResponse)
                  (\<lambda>response. Resolved response)))"

definition post :: "fetch \<Rightarrow> string \<Rightarrow> props option \<Rightarrow> payload promise option" where
  "post fetch url options' =
     (case mergeOptions ''POST'' options' of
        None \<Rightarrow> None
      | Some options \<Rightarrow>
          Some (then_p (then_p (fetch url options) handleResponse)
                  (\<lambda>response. Resolved response)))"

definition put :: "fetch \<Rightarrow> string \<Rightarrow> props option \<Rightarrow> payload promise option" where
  "put fetch url options' =
     (case mergeOptions ''PUT'' options' of
        None \<Rightarrow> None
      | Some options \<Rightarrow>
          Some (then_p (then_p (fetch url options) handleResponse)
                  (\<lambda>response. Resolved response)))"

definition delete' :: "fetch \<Rightarrow> string \<Rightarrow> props option \<Rightarrow> payload promise option" where
  "delete' fetch url options' =
     (case mergeOptions ''DELETE'' options' of
        None \<Rightarrow> None
      | Some options \<Rightarrow>
          Some (then_p (then_p (fetch url options) handleResponse)
                  (\<lambda>response. Resolved response)))"

text \<open>
  Modelled from the spec: the multipart form of the \<open>form-data\<close> package, "a multipart form
  body with a single field named \<open>file\<close> holding the given file-like value": a form is the
  list of the fields appended to it.
\<close>

definition FormData_new :: "(string \<times> jsval) list" where
  "FormData_new = []"

definition FormData_append :: "(string \<times> jsval) list \<Rightarrow> string \<Rightarrow> jsval \<Rightarrow> (string \<times> jsval) list" where
  "FormData_append form name value = form @ [(name, value)]"

definition postFile :: "fetch \<Rightarrow> string \<Rightarrow> jsval \<Rightarrow> payload promise" where
  "postFile fetch url file =
     (let form = FormData_append FormData_new ''file'' file;
          options = [(''body'', JFormData form),
                     (''method'', JStr ''POST''),
                     (''credentials'', JStr ''same-origin'')]
      in then_p (then_p (fetch url options) handleResponse)
           (\<lambda>response. Resolved response))"

text \<open>
  The shape the four operations share, in the spec's words: \<open>mergeOptions(METHOD, options)\<close>,
  then dispatch, then \<open>handleResponse\<close>.
\<close>

definition request :: "string \<Rightarrow> fetch \<Rightarrow> string \<Rightarrow> props option \<Rightarrow> payload promise option" where
  "request method fetch url options' =
     map_option (\<lambda>options. then_p (fetch url options) handleResponse)
       (mergeOptions method options')"

text \<open>The error body of the server that the module's documentation gives as its example.\<close>

definition groupNameError :: jsval where
  "groupNameError =
     JObj [(''errors'',
            JArr [JObj [(''message'', JStr ''Group name 'test' is not available''),
                        (''code'', JStr ''DS16'')]])]"

text \<open>Whitespace other than the space character: tab, line feed, vertical tab, form feed,
  carriage return and the no-break space.\<close>

definition otherWhitespace :: "char list" where
  "otherWhitespace = [CHR 0x09, CHR 0x0A, CHR 0x0B, CHR 0x0C, CHR 0x0D, CHR 0xA0]"

section \<open>Well-formed values\<close>

text \<open>
  An association list stands for an object when no key occurs twice in it, at any depth.
  The fields of a form may repeat.
\<close>

fun wf_val :: "jsval \<Rightarrow> bool"
  and wf_props :: "props \<Rightarrow> bool"
  and wf_vals :: "jsval list \<Rightarrow> bool"
where
  "wf_val (JObj ps) = wf_props ps"
| "wf_val (JArr vs) = wf_vals vs"
| "wf_val v = True"
| "wf_props [] = True"
| "wf_props ((k, v) # ps) = (k \<notin> fst ` set ps \<and> wf_val v \<and> wf_props ps)"
| "wf_vals [] = True"
| "wf_vals (v # vs) = (wf_val v \<and> wf_vals vs)"

text \<open>
  What one key of the source leaves at that key of the destination: the recursive merge for
  an object, the destination's own value for \<open>undefined\<close> over a key it has, the source's
  value otherwise.
\<close>

definition mergedValue :: "props \<Rightarrow> string \<Rightarrow> jsval \<Rightarrow> jsval option" where
  "mergedValue object k v =
     (if isObject v then baseMergeDeep (safeGet object k) v
      else if v = JUndefined \<and> map_of object k \<noteq> None then map_of object k
      else Some v)"

text \<open>
  The headers of \<open>defaultOptions\<close>, and the configuration that the merge of \<open>{method}\<close>
  with \<open>defaultOptions\<close> gives.
\<close>

definition defaultHeaders :: props where
  "defaultHeaders = [(''Accept'', JStr ''application/json''),
                     (''Content-Type'', JStr ''application/json''),
                     (''X-Requested-With'', JStr ''XMLHttpRequest'')]"

definition defaultConfig :: "string \<Rightarrow> props" where
  "defaultConfig method =
     [(''method'', JStr method), (''headers'', JObj defaultHeaders), (''credentials'', JStr ''same-origin'')]"

text \<open>
  Options that override none of the defaults: no options at all, or a well-formed object
  without the keys \<open>method\<close> and \<open>credentials\<close> whose \<open>headers\<close>, if it has any, is an
  object without the three default header names.
\<close>

fun overridesNothing :: "props option \<Rightarrow> bool" where
  "overridesNothing None = True"
| "overridesNothing (Some options) =
     (wf_props options
      \<and> map_of options ''method'' = None
      \<and> map_of options ''credentials'' = None
      \<and> (case map_of options ''headers'' of
            None \<Rightarrow> True
          | Some (JObj headers) \<Rightarrow>
              map_of headers ''Accept'' = None
              \<and> map_of headers ''Content-Type'' = None
              \<and> map_of headers ''X-Requested-With'' = None
          | Some _ \<Rightarrow> False))"

section \<open>The merge in a store\<close>

text \<open>
  \<open>merge\<close> writes into its first argument, and \<open>defaultOptions\<close> is an object of the module
  that every call reads. To follow which objects a call writes, the merge is modelled a
  second time over a store: an object lives at an address, a value is a primitive or the
  address of an object, and assigning a property replaces the object at its address. A
  store is the list of its objects, the address the index; a new object goes to the end.
  Of a host object the store keeps its entries (the fields of a form), which are not
  properties.
\<close>

type_synonym addr = nat

datatype hval = HUndefined | HNull | HBool bool | HNum int | HStr string | HRef addr

datatype hobj =
    PlainObject "(string \<times> hval) list"
  | ArrayObject "hval list"
  | HostObject "(string \<times> hval) list"

type_synonym store = "hobj list"

text \<open>Reading and writing the store. An address beyond the store holds no object.\<close>

definition lookupS :: "store \<Rightarrow> addr \<Rightarrow> hobj option" where
  "lookupS s a = (if a < length s then Some (s ! a) else None)"

definition alloc :: "hobj \<Rightarrow> store \<Rightarrow> addr \<times> store" where
  "alloc obj s = (length s, s @ [obj])"

definition getProp :: "store \<Rightarrow> addr \<Rightarrow> string \<Rightarrow> hval" where
  "getProp s a key =
     (case lookupS s a of
        Some (PlainObject ps) \<Rightarrow> (case map_of ps key of None \<Rightarrow> HUndefined | Some v \<Rightarrow> v)
      | _ \<Rightarrow> HUndefined)"

definition getElem :: "store \<Rightarrow> addr \<Rightarrow> nat \<Rightarrow> hval" where
  "getElem s a i =
     (case lookupS s a of
        Some (ArrayObject es) \<Rightarrow> (if i < length es then es ! i else HUndefined)
      | _ \<Rightarrow> HUndefined)"

fun baseAssignProp :: "(string \<times> hval) list \<Rightarrow> string \<Rightarrow> hval \<Rightarrow> (string \<times> hval) list" where
  "baseAssignProp [] key value = [(key, value)]"
| "baseAssignProp ((k, v) # ps) key value =
     (if k = key then (key, value) # ps else (k, v) # baseAssignProp ps key value)"

definition assignProp :: "addr \<Rightarrow> string \<Rightarrow> hval \<Rightarrow> store \<Rightarrow> store" where
  "assignProp a key value s =
     (case lookupS s a of
        Some (PlainObject ps) \<Rightarrow>
          if (value \<noteq> HUndefined \<and> getProp s a key \<noteq> value)
             \<or> (value = HUndefined \<and> map_of ps key = None)
          then s[a := PlainObject (baseAssignProp ps key value)] else s
      | _ \<Rightarrow> s)"

definition assignElem :: "addr \<Rightarrow> nat \<Rightarrow> hval \<Rightarrow> store \<Rightarrow> store" where
  "assignElem a i value s =
     (case lookupS s a of
        Some (ArrayObject es) \<Rightarrow>
          if (value \<noteq> HUndefined \<and> getElem s a i \<noteq> value)
             \<or> (value = HUndefined \<and> \<not> i < length es)
          then s[a := ArrayObject
                 (if i < length es then es[i := value]
                  else es @ replicate (i - length es) HUndefined @ [value])]
          else s
      | _ \<Rightarrow> s)"

definition isArrayLikeS :: "(string \<times> hval) list \<Rightarrow> bool" where
  "isArrayLikeS ps =
     (case map_of ps ''length'' of
        Some (HNum n) \<Rightarrow> 0 \<le> n \<and> n \<le> 9007199254740991
      | _ \<Rightarrow> False)"

text \<open>
  Modelled from the spec: \<open>merge\<close> of lodash as before, now with its writes. For a source
  value that is an array or a plain object, \<open>newValue\<close> is the destination's own object when
  it has one of the same kind, and a new empty object otherwise; the source is merged into
  it and \<open>newValue\<close> is assigned. A host object is assigned by reference. The merge of two
  objects is the parameter \<open>mergeFunc\<close>, as in the library.

  The recursion follows the references of the store, so \<open>baseMergeS\<close> takes fuel, one unit
  for each level of nesting. \<open>None\<close> is a merge that runs out of fuel (a cyclic source does,
  with any fuel) or one of the merges that the model does not describe.
\<close>

definition baseMergeDeepS ::
  "(addr \<Rightarrow> addr \<Rightarrow> store \<Rightarrow> store option) \<Rightarrow> hval \<Rightarrow> addr \<Rightarrow> store \<Rightarrow> (hval \<times> store) option" where
  "baseMergeDeepS mergeFunc objValue r s =
     (case lookupS s r of
        None \<Rightarrow> None
      | Some (ArrayObject _) \<Rightarrow>
          (case objValue of
             HRef d \<Rightarrow>
               (case lookupS s d of
                  Some (ArrayObject _) \<Rightarrow> map_option (Pair (HRef d)) (mergeFunc d r s)
                | Some (PlainObject dp) \<Rightarrow>
                    if isArrayLikeS dp then None
                    else map_option (Pair (HRef (fst (alloc (ArrayObject []) s))))
                           (mergeFunc (fst (alloc (ArrayObject []) s)) r (snd (alloc (ArrayObject []) s)))
                | _ \<Rightarrow> None)
           | _ \<Rightarrow>
               map_option (Pair (HRef (fst (alloc (ArrayObject []) s))))
                 (mergeFunc (fst (alloc (ArrayObject []) s)) r (snd (alloc (ArrayObject []) s))))
      | Some (PlainObject _) \<Rightarrow>
          (case objValue of
             HRef d \<Rightarrow>
               (case lookupS s d of
                  Some (PlainObject _) \<Rightarrow> map_option (Pair (HRef d)) (mergeFunc d r s)
                | _ \<Rightarrow> None)
           | _ \<Rightarrow>
               map_option (Pair (HRef (fst (alloc (PlainObject []) s))))
                 (mergeFunc (fst (alloc (PlainObject []) s)) r (snd (alloc (PlainObject []) s))))
      | Some (HostObject _) \<Rightarrow> Some (HRef r, s))"

primrec mergePropsS ::
  "(addr \<Rightarrow> addr \<Rightarrow> store \<Rightarrow> store option) \<Rightarrow> addr \<Rightarrow> addr \<Rightarrow> string list \<Rightarrow> store \<Rightarrow> store option" where
  "mergePropsS mergeFunc object source [] s = Some s"
| "mergePropsS mergeFunc object source (key # keys) s =
     (case getProp s source key of
        HRef r \<Rightarrow>
          (case baseMergeDeepS mergeFunc (getProp s object key) r s of
             None \<Rightarrow> None
           | Some (newValue, s') \<Rightarrow>
               mergePropsS mergeFunc object source keys (assignProp object key newValue s'))
      | srcValue \<Rightarrow> mergePropsS mergeFunc object source keys (assignProp object key srcValue s))"

primrec mergeElemsS ::
  "(addr \<Rightarrow> addr \<Rightarrow> store \<Rightarrow> store option) \<Rightarrow> addr \<Rightarrow> addr \<Rightarrow> nat list \<Rightarrow> store \<Rightarrow> store option" where
  "mergeElemsS mergeFunc object source [] s = Some s"
| "mergeElemsS mergeFunc object source (i # is) s =
     (case getElem s source i of
        HRef r \<Rightarrow>
          (case baseMergeDeepS mergeFunc (getElem s object i) r s of
             None \<Rightarrow> None
           | Some (newValue, s') \<Rightarrow>
               mergeElemsS mergeFunc object source is (assignElem object i newValue s'))
      | srcValue \<Rightarrow> mergeElemsS mergeFunc object source is (assignElem object i srcValue s))"

primrec baseMergeS :: "nat \<Rightarrow> addr \<Rightarrow> addr \<Rightarrow> store \<Rightarrow> store option" where
  "baseMergeS 0 object source s = None"
| "baseMergeS (Suc fuel) object source s =
     (if object = source then Some s
      else (case lookupS s source of
              Some (PlainObject sp) \<Rightarrow>
                (case lookupS s object of
                   Some (PlainObject _) \<Rightarrow> mergePropsS (baseMergeS fuel) object source (map fst sp) s
                 | _ \<Rightarrow> None)
            | Some (ArrayObject ss) \<Rightarrow>
                (case lookupS s object of
                   Some (ArrayObject _) \<Rightarrow> mergeElemsS (baseMergeS fuel) object source [0..<length ss] s
                 | _ \<Rightarrow> None)
            | _ \<Rightarrow> None))"

text \<open>\<open>merge(object, ...sources)\<close>: a falsy source is skipped; a primitive one is not modelled.\<close>

definition isFalsy :: "hval \<Rightarrow> bool" where
  "isFalsy v = (v = HUndefined \<or> v = HNull \<or> v = HBool False \<or> v = HNum 0 \<or> v = HStr [])"

fun mergeS :: "nat \<Rightarrow> addr \<Rightarrow> hval list \<Rightarrow> store \<Rightarrow> store option" where
  "mergeS fuel object [] s = Some s"
| "mergeS fuel object (source # sources) s =
     (if isFalsy source then mergeS fuel object sources s
      else (case source of
              HRef a \<Rightarrow>
                (case baseMergeS fuel object a s of
                   None \<Rightarrow> None
                 | Some s' \<Rightarrow> mergeS fuel object sources s')
            | _ \<Rightarrow> None))"

text \<open>
  The store when the module is loaded: \<open>defaultOptions\<close> at address 0 and its \<open>headers\<close> at
  address 1. The objects of the callers come after them.
\<close>

definition moduleStore :: store where
  "moduleStore =
     [PlainObject [(''headers'', HRef 1), (''credentials'', HStr ''same-origin'')],
      PlainObject [(''Accept'', HStr ''application/json''),
                   (''Content-Type'', HStr ''application/json''),
                   (''X-Requested-With'', HStr ''XMLHttpRequest'')]]"

definition defaultOptionsS :: hval where
  "defaultOptionsS = HRef 0"

definition mergeOptionsS :: "nat \<Rightarrow> string \<Rightarrow> hval \<Rightarrow> store \<Rightarrow> (addr \<times> store) option" where
  "mergeOptionsS fuel method options s =
     (case alloc (PlainObject [(''method'', HStr method)]) s of
        (object, s1) \<Rightarrow> map_option (Pair object) (mergeS fuel object [defaultOptionsS, options] s1))"






text \<open>
  The module does not export \<open>defaultOptions\<close>: no object of a caller refers to the addresses
  0 and 1. \<open>moduleInv\<close> says so, and that the two objects are as the module created them.
\<close>

definition cleanVal :: "hval \<Rightarrow> bool" where
  "cleanVal v = (v \<noteq> HRef 0 \<and> v \<noteq> HRef 1)"

fun cleanObj :: "hobj \<Rightarrow> bool" where
  "cleanObj (PlainObject ps) = list_all (\<lambda>p. cleanVal (snd p)) ps"
| "cleanObj (ArrayObject es) = list_all cleanVal es"
| "cleanObj (HostObject fs) = list_all (\<lambda>p. cleanVal (snd p)) fs"

definition moduleInv :: "store \<Rightarrow> bool" where
  "moduleInv s = (take 2 s = moduleStore \<and> list_all cleanObj (drop 2 s))"


text \<open>A store with the objects of a caller: options with their headers, and a file.\<close>

definition callerStore :: store where
  "callerStore =
     moduleStore @ [PlainObject [(''headers'', HRef 3), (''body'', HStr ''{}'')],
                    PlainObject [(''Accept'', HStr ''text/plain'')],
                    HostObject []]"

text \<open>The value that a value of the store stands for: its objects read out, down to a depth.\<close>

primrec readProps :: "(hval \<Rightarrow> jsval option) \<Rightarrow> (string \<times> hval) list \<Rightarrow> props option" where
  "readProps rd [] = Some []"
| "readProps rd (p # ps) =
     (case rd (snd p) of
        None \<Rightarrow> None
      | Some j \<Rightarrow> map_option ((#) (fst p, j)) (readProps rd ps))"

primrec readElems :: "(hval \<Rightarrow> jsval option) \<Rightarrow> hval list \<Rightarrow> jsval list option" where
  "readElems rd [] = Some []"
| "readElems rd (v # vs) =
     (case rd v of
        None \<Rightarrow> None
      | Some j \<Rightarrow> map_option ((#) j) (readElems rd vs))"

primrec readS :: "nat \<Rightarrow> store \<Rightarrow> hval \<Rightarrow> jsval option" where
  "readS 0 s v = None"
| "readS (Suc fuel) s v =
     (case v of
        HUndefined \<Rightarrow> Some JUndefined
      | HNull \<Rightarrow> Some JNull
      | HBool b \<Rightarrow> Some (JBool b)
      | HNum n \<Rightarrow> Some (JNum n)
      | HStr t \<Rightarrow> Some (JStr t)
      | HRef a \<Rightarrow>
          (case lookupS s a of
             None \<Rightarrow> None
           | Some (PlainObject ps) \<Rightarrow> map_option JObj (readProps (readS fuel s) ps)
           | Some (ArrayObject es) \<Rightarrow> map_option JArr (readElems (readS fuel s) es)
           | Some (HostObject entries) \<Rightarrow> map_option JFormData (readProps (readS fuel s) entries)))"

section \<open>Properties of the response pipeline\<close>

lemma join_js_empty: "join_js [] ps = concat ps"
  by (induction "[] :: string" ps rule: join_js.induct) simp_all

lemma concat_split_js: "concat (split_js sep s) = filter (\<lambda>c. c \<noteq> sep) s"
  by (induction s) (auto split: list.splits)

lemma normalize_filter:
  "normalizedContentType s
   = filter (\<lambda>c. c \<noteq> CHR 0x22) (filter (\<lambda>c. c \<noteq> CHR '' '') (map toLowerCase_char s))"
  by (simp add: normalizedContentType_def join_js_empty concat_split_js toLowerCase_def)

lemma then_p_Resolved: "then_p p (\<lambda>response. Resolved response) = p"
  by (cases p) simp_all

lemma otherWhitespace_lower: "w \<in> set otherWhitespace \<Longrightarrow> toLowerCase_char w = w"
  by (auto simp: otherWhitespace_def toLowerCase_char_def)

lemma otherWhitespace_kept:
  assumes "w \<in> set otherWhitespace" and "w \<in> set s"
  shows "w \<in> set (normalizedContentType s)"
proof -
  from assms(1) have "w \<noteq> CHR 0x22" and "w \<noteq> CHR '' ''"
    by (auto simp: otherWhitespace_def)
  moreover from assms have "w \<in> toLowerCase_char ` set s"
    using otherWhitespace_lower by force
  ultimately show ?thesis
    by (simp add: normalize_filter)
qed

lemma otherWhitespace_not_json:
  assumes "w \<in> set otherWhitespace"
  shows "w \<notin> set ''application/json''" and "w \<notin> set ''application/json;charset=utf-8''"
  using assms by (auto simp: otherWhitespace_def)

lemma normalized_charset_example:
  "normalizedContentType (''application/json; charset='' @ [CHR 0x22] @ ''UTF-8'' @ [CHR 0x22])
   = ''application/json;charset=utf-8''"
  by code_simp

lemma normalized_html_example: "normalizedContentType ''text/html'' = ''text/html''"
  by code_simp

text \<open>
  C1. When \<open>isJsonResponse\<close> holds and the body decodes to \<open>j\<close>, \<open>handleResponse\<close> resolves
  with \<open>j\<close> for a status in 200..299 and rejects with \<open>j\<close> otherwise. In particular
  \<open>get(url)\<close> rejects with the error body of the documentation when the transport answers
  with a JSON response of another status that carries it. A body that does not decode
  rejects with the failure of the decoding, whatever the status.
\<close>

theorem handleResponse_json:
  "(isJsonResponse r \<and> json r = Inr j \<longrightarrow>
      handleResponse r
        = (if 200 \<le> status r \<and> status r \<le> 299 then Resolved (Json j) else Rejected (Json j)))
   \<and> (mergeOptions ''GET'' None = Some options \<and> fetch url options = Resolved r
        \<and> isJsonResponse r \<and> json r = Inr groupNameError
        \<and> \<not> (200 \<le> status r \<and> status r \<le> 299) \<longrightarrow>
      get fetch url None = Some (Rejected (Json groupNameError)))
   \<and> (isJsonResponse r \<and> json r = Inl e \<longrightarrow> handleResponse r = Rejected (Failure e))"
  by (simp add: handleResponse_def json_promise_def ok_def get_def)

theorem handleResponse_json_witness:
  "handleResponse \<lparr>headers_get = (\<lambda>name. if name = ''content-type'' then Some ''application/json'' else None),
                    status = 400, json = Inr groupNameError\<rparr>
     = Rejected (Json groupNameError)
   \<and> get (\<lambda>url options. Resolved \<lparr>headers_get = (\<lambda>name. if name = ''content-type'' then Some ''application/json'' else None),
                                    status = 400, json = Inr groupNameError\<rparr>)
        ''/api/v2/group'' None
     = Some (Rejected (Json groupNameError))"
proof -
  let ?r = "\<lparr>headers_get = (\<lambda>name. if name = ''content-type'' then Some ''application/json'' else None),
             status = 400, json = Inr groupNameError\<rparr>"
  have n: "normalizedContentType ''application/json'' = ''application/json''"
    by code_simp
  have j: "isJsonResponse ?r"
    by (simp add: isJsonResponse_def n)
  have m: "mergeOptions ''GET'' None \<noteq> None"
    by (simp add: mergeOptions_def defaultOptions_def isObject_def safeGet_def
        assignMergeValue_def)
  then obtain options where o: "mergeOptions ''GET'' None = Some options"
    by blast
  show ?thesis
    using handleResponse_json [of ?r groupNameError options "\<lambda>url options. Resolved ?r" "''/api/v2/group''"] j o
    by simp
qed

text \<open>
  C3. \<open>isJsonResponse\<close> is false without a \<open>content-type\<close> header; with one it is true exactly
  when the value, lower-cased and with every space and every double quote removed, is
  \<open>application/json\<close> or \<open>application/json;charset=utf-8\<close>. The value
  \<open>application/json; charset="UTF-8"\<close>, with a space, upper case and a quoted charset, is
  accepted; \<open>text/html\<close> is not.
\<close>

theorem isJsonResponse_normalization:
  "isJsonResponse r =
     (case headers_get r ''content-type'' of
        None \<Rightarrow> False
      | Some contentType \<Rightarrow>
          filter (\<lambda>c. c \<noteq> CHR 0x22)
            (filter (\<lambda>c. c \<noteq> CHR '' '') (map toLowerCase_char contentType))
          \<in> {''application/json'', ''application/json;charset=utf-8''})
   \<and> isJsonResponse (r\<lparr>headers_get := \<lambda>name. if name = ''content-type''
         then Some (''application/json; charset='' @ [CHR 0x22] @ ''UTF-8'' @ [CHR 0x22])
         else None\<rparr>)
   \<and> \<not> isJsonResponse (r\<lparr>headers_get := \<lambda>name. if name = ''content-type''
         then Some ''text/html'' else None\<rparr>)
   \<and> \<not> isJsonResponse (r\<lparr>headers_get := \<lambda>name. None\<rparr>)"
proof (intro conjI)
  show "isJsonResponse r =
     (case headers_get r ''content-type'' of
        None \<Rightarrow> False
      | Some contentType \<Rightarrow>
          filter (\<lambda>c. c \<noteq> CHR 0x22)
            (filter (\<lambda>c. c \<noteq> CHR '' '') (map toLowerCase_char contentType))
          \<in> {''application/json'', ''application/json;charset=utf-8''})"
    unfolding isJsonResponse_def normalize_filter
    by (auto split: option.splits)
  show "isJsonResponse (r\<lparr>headers_get := \<lambda>name. if name = ''content-type''
       then Some (''application/json; charset='' @ [CHR 0x22] @ ''UTF-8'' @ [CHR 0x22])
       else None\<rparr>)"
    using normalized_charset_example by (simp add: isJsonResponse_def)
  show "\<not> isJsonResponse (r\<lparr>headers_get := \<lambda>name. if name = ''content-type''
       then Some ''text/html'' else None\<rparr>)"
    by (simp add: isJsonResponse_def normalized_html_example)
  show "\<not> isJsonResponse (r\<lparr>headers_get := \<lambda>name. None\<rparr>)"
    by (simp add: isJsonResponse_def)
qed

text \<open>
  C5. \<open>postFile(url, file)\<close> dispatches one request, whose configuration has the three keys
  \<open>body\<close>, \<open>method\<close> and \<open>credentials\<close>: the body is a form with the single field \<open>file\<close> bound
  to the given value, the method is \<open>POST\<close>, the credentials mode is \<open>same-origin\<close>, and there
  is no \<open>headers\<close> key, so none of the default headers is set. The transport's answer goes
  through \<open>handleResponse\<close>.
\<close>

theorem postFile_request:
  "postFile fetch url file
     = then_p (fetch url [(''body'', JFormData [(''file'', file)]),
                          (''method'', JStr ''POST''),
                          (''credentials'', JStr ''same-origin'')])
         handleResponse
   \<and> map_of [(''body'', JFormData [(''file'', file)]),
              (''method'', JStr ''POST''),
              (''credentials'', JStr ''same-origin'')] ''headers'' = None"
  by (simp add: postFile_def FormData_append_def FormData_new_def then_p_Resolved)

text \<open>
  C6. When \<open>isJsonResponse\<close> is false, \<open>handleResponse\<close> resolves with the response object
  itself for a status in 200..299 and rejects with it otherwise, whatever decoding the body
  would give.
\<close>

theorem handleResponse_raw:
  "\<not> isJsonResponse r \<Longrightarrow>
   handleResponse r
     = (if 200 \<le> status r \<and> status r \<le> 299 then Resolved (Raw r) else Rejected (Raw r))"
  by (simp add: handleResponse_def ok_def)

theorem handleResponse_raw_witness:
  "\<not> isJsonResponse \<lparr>headers_get = (\<lambda>name. if name = ''content-type'' then Some ''text/html'' else None),
                       status = 404, json = Inl ''Unexpected token''\<rparr>
   \<and> handleResponse \<lparr>headers_get = (\<lambda>name. if name = ''content-type'' then Some ''text/html'' else None),
                      status = 404, json = Inl ''Unexpected token''\<rparr>
     = Rejected (Raw \<lparr>headers_get = (\<lambda>name. if name = ''content-type'' then Some ''text/html'' else None),
                      status = 404, json = Inl ''Unexpected token''\<rparr>)"
proof -
  let ?r = "\<lparr>headers_get = (\<lambda>name. if name = ''content-type'' then Some ''text/html'' else None),
             status = 404, json = Inl ''Unexpected token''\<rparr>"
  have n: "\<not> isJsonResponse ?r"
    by (simp add: isJsonResponse_def normalized_html_example)
  from handleResponse_raw [OF n] n show ?thesis
    by simp
qed

text \<open>
  C7. \<open>get\<close>, \<open>post\<close>, \<open>put\<close> and \<open>delete_\<close> are one function of the method: each is
  \<open>request\<close> at its own method string.
\<close>

theorem operations_share_request:
  "get fetch url options' = request ''GET'' fetch url options'
   \<and> post fetch url options' = request ''POST'' fetch url options'
   \<and> put fetch url options' = request ''PUT'' fetch url options'
   \<and> delete' fetch url options' = request ''DELETE'' fetch url options'"
  by (simp add: get_def post_def put_def delete'_def request_def then_p_Resolved
      split: option.split)

text \<open>
  C10. Only the space character is removed. A \<open>content-type\<close> value that contains a tab, or
  another whitespace character that is not a space, is not recognised as JSON, whatever
  else it contains, and the response is handled on the raw path.
\<close>

theorem isJsonResponse_other_whitespace:
  assumes "headers_get r ''content-type'' = Some contentType"
    and "w \<in> set otherWhitespace"
    and "w \<in> set contentType"
  shows "\<not> isJsonResponse r
         \<and> handleResponse r
             = (if 200 \<le> status r \<and> status r \<le> 299 then Resolved (Raw r) else Rejected (Raw r))"
proof -
  from assms(2,3) have "w \<in> set (normalizedContentType contentType)"
    by (rule otherWhitespace_kept)
  with otherWhitespace_not_json [OF assms(2)]
  have "normalizedContentType contentType \<noteq> ''application/json''"
    and "normalizedContentType contentType \<noteq> ''application/json;charset=utf-8''"
    by metis+
  with assms(1) have "\<not> isJsonResponse r"
    by (simp add: isJsonResponse_def)
  then show ?thesis
    by (simp add: handleResponse_def ok_def)
qed

theorem isJsonResponse_other_whitespace_witness:
  "\<not> isJsonResponse
       \<lparr>headers_get = (\<lambda>name. if name = ''content-type''
                               then Some (''application/json;'' @ [CHR 0x09] @ ''charset=utf-8'')
                               else None),
        status = 200, json = Inr JNull\<rparr>
   \<and> handleResponse
       \<lparr>headers_get = (\<lambda>name. if name = ''content-type''
                               then Some (''application/json;'' @ [CHR 0x09] @ ''charset=utf-8'')
                               else None),
        status = 200, json = Inr JNull\<rparr>
     = Resolved (Raw
       \<lparr>headers_get = (\<lambda>name. if name = ''content-type''
                               then Some (''application/json;'' @ [CHR 0x09] @ ''charset=utf-8'')
                               else None),
        status = 200, json = Inr JNull\<rparr>)"
proof -
  let ?r = "\<lparr>headers_get = (\<lambda>name. if name = ''content-type''
                               then Some (''application/json;'' @ [CHR 0x09] @ ''charset=utf-8'')
                               else None),
        status = 200, json = Inr JNull\<rparr>"
  have h: "headers_get ?r ''content-type'' = Some (''application/json;'' @ [CHR 0x09] @ ''charset=utf-8'')"
    by simp
  have w: "CHR 0x09 \<in> set otherWhitespace"
    by (simp add: otherWhitespace_def)
  have m: "CHR 0x09 \<in> set (''application/json;'' @ [CHR 0x09] @ ''charset=utf-8'')"
    by simp
  from isJsonResponse_other_whitespace [OF h w m] show ?thesis
    by simp
qed

section \<open>Properties of the merge\<close>

lemma wf_props_distinct: "wf_props ps \<Longrightarrow> distinct (map fst ps)"
  by (induction ps) force+

lemma map_of_fresh: "k \<notin> fst ` set object \<Longrightarrow> map_of object k = None"
  by (simp add: map_of_eq_None_iff)

lemma wf_props_val: "wf_props ps \<Longrightarrow> (k, v) \<in> set ps \<Longrightarrow> wf_val v"
  by (induction ps) auto

lemma baseAssignValue_fresh: "k \<notin> fst ` set object \<Longrightarrow> baseAssignValue object k v = object @ [(k, v)]"
  by (induction object) auto

lemma map_of_baseAssignValue: "map_of (baseAssignValue object k v) k' = (if k' = k then Some v else map_of object k')"
  by (induction object) auto

lemma assignMergeValue_fresh: "k \<notin> fst ` set object \<Longrightarrow> assignMergeValue object k v = object @ [(k, v)]"
  by (auto simp: assignMergeValue_def baseAssignValue_fresh safeGet_def map_of_fresh)

lemma safeGet_fresh: "k \<notin> fst ` set object \<Longrightarrow> safeGet object k = JUndefined"
  by (simp add: safeGet_def map_of_fresh)

lemma clone:
  "wf_props source \<Longrightarrow> fst ` set source \<inter> fst ` set object = {} \<Longrightarrow> baseMerge object source = Some (object @ source)"
  "wf_val srcValue \<Longrightarrow> \<not> isObject objValue \<Longrightarrow> baseMergeDeep objValue srcValue = Some srcValue"
  "wf_vals elems \<Longrightarrow> dst = [] \<Longrightarrow> baseMergeArray dst elems = Some elems"
proof (induction object source and objValue srcValue and dst elems rule: baseMerge_baseMergeDeep_baseMergeArray.induct)
  case (2 object key srcValue source)
  from "2.prems" have fresh: "key \<notin> fst ` set object" and wf: "wf_val srcValue" "wf_props source"
    and nk: "key \<notin> fst ` set source" and dj: "fst ` set source \<inter> fst ` set object = {}"
    by auto
  have u: "\<not> isObject (safeGet object key)"
    by (simp add: safeGet_fresh [OF fresh] isObject_def)
  have d: "fst ` set source \<inter> fst ` set (object @ [(key, srcValue)]) = {}"
    using nk dj by auto
  show ?case
  proof (cases "isObject srcValue")
    case True
    with "2.IH"(1) wf u have e: "baseMergeDeep (safeGet object key) srcValue = Some srcValue"
      by simp
    from "2.IH"(2) [OF True e] wf d show ?thesis
      by (simp add: True e assignMergeValue_fresh [OF fresh])
  next
    case False
    from "2.IH"(3) [OF False] wf d show ?thesis
      by (simp add: False assignMergeValue_fresh [OF fresh])
  qed
next
  case (3 objValue source)
  then show ?case by (auto simp: isObject_def split: jsval.splits)
next
  case (4 objValue source)
  then show ?case by (auto simp: isObject_def split: jsval.splits)
qed (auto simp: isObject_def)


lemma map_of_assignMergeValue_other:
  "k' \<noteq> k \<Longrightarrow> map_of (assignMergeValue object k v) k' = map_of object k'"
  by (simp add: assignMergeValue_def map_of_baseAssignValue)

lemma map_of_assignMergeValue_same:
  "map_of (assignMergeValue object k v) k
     = (if v = JUndefined \<and> map_of object k \<noteq> None then map_of object k else Some v)"
  by (auto simp: assignMergeValue_def map_of_baseAssignValue safeGet_def split: option.splits)

lemma safeGet_assignMergeValue_other:
  "k' \<noteq> k \<Longrightarrow> safeGet (assignMergeValue object k v) k' = safeGet object k'"
  by (simp add: safeGet_def map_of_assignMergeValue_other)

lemma baseMergeDeep_isObject:
  "isObject srcValue \<Longrightarrow> baseMergeDeep objValue srcValue = Some newValue \<Longrightarrow> isObject newValue"
  by (cases srcValue; cases objValue) (auto simp: isObject_def split: if_splits)

lemma baseMerge_lookup:
  assumes "distinct (map fst source)" and "baseMerge object source = Some r"
  shows "map_of r k = (case map_of source k of None \<Rightarrow> map_of object k
                       | Some v \<Rightarrow> mergedValue object k v)"
  using assms
proof (induction source arbitrary: object)
  case Nil
  then show ?case by simp
next
  case (Cons p source)
  obtain key srcValue where p: "p = (key, srcValue)"
    by (cases p)
  from Cons.prems(1) p have nk: "map_of source key = None" and ds: "distinct (map fst source)"
    by (auto simp: map_of_eq_None_iff)
  obtain x where m: "baseMerge (assignMergeValue object key x) source = Some r"
    and x1: "isObject srcValue \<Longrightarrow> baseMergeDeep (safeGet object key) srcValue = Some x"
    and x2: "\<not> isObject srcValue \<Longrightarrow> x = srcValue"
    using Cons.prems(2) p
    by (cases "isObject srcValue") (auto split: option.splits)
  note IH = Cons.IH [OF ds m]
  show ?case
  proof (cases "k = key")
    case True
    have "map_of r key = map_of (assignMergeValue object key x) key"
      using IH nk True by simp
    moreover have "map_of (assignMergeValue object key x) key = mergedValue object key srcValue"
    proof (cases "isObject srcValue")
      case True
      from baseMergeDeep_isObject [OF True x1 [OF True]] have "x \<noteq> JUndefined"
        by (auto simp: isObject_def)
      with True x1 show ?thesis
        by (simp add: map_of_assignMergeValue_same mergedValue_def)
    next
      case False
      with x2 show ?thesis
        by (simp add: map_of_assignMergeValue_same mergedValue_def)
    qed
    ultimately show ?thesis
      using True p by simp
  next
    case False
    then have e: "map_of (assignMergeValue object key x) k = map_of object k"
      and "safeGet (assignMergeValue object key x) k = safeGet object k"
      by (simp_all add: map_of_assignMergeValue_other safeGet_assignMergeValue_other)
    then have "mergedValue (assignMergeValue object key x) k v = mergedValue object k v" for v
      by (auto simp: mergedValue_def)
    with IH e False p show ?thesis
      by (simp split: option.splits)
  qed
qed

lemma baseMerge_success:
  assumes "distinct (map fst source)"
    and "\<And>k v. (k, v) \<in> set source \<Longrightarrow> isObject v \<Longrightarrow> baseMergeDeep (safeGet object k) v \<noteq> None"
  shows "baseMerge object source \<noteq> None"
  using assms
proof (induction source arbitrary: object)
  case Nil
  then show ?case by simp
next
  case (Cons p source)
  obtain key srcValue where p: "p = (key, srcValue)"
    by (cases p)
  from Cons.prems(1) p have nk: "key \<notin> fst ` set source" and ds: "distinct (map fst source)"
    by auto
  have rest: "baseMerge (assignMergeValue object key x) source \<noteq> None" for x
  proof (rule Cons.IH [OF ds])
    fix k v
    assume kv: "(k, v) \<in> set source" and o: "isObject v"
    with nk have "k \<noteq> key"
      by force
    then have "safeGet (assignMergeValue object key x) k = safeGet object k"
      by (rule safeGet_assignMergeValue_other)
    with Cons.prems(2) [of k v] kv o show "baseMergeDeep (safeGet (assignMergeValue object key x) k) v \<noteq> None"
      by simp
  qed
  show ?case
  proof (cases "isObject srcValue")
    case True
    with Cons.prems(2) [of key srcValue] p
    obtain nv where "baseMergeDeep (safeGet object key) srcValue = Some nv"
      by auto
    with True rest [of nv] p show ?thesis
      by simp
  next
    case False
    with rest [of srcValue] p show ?thesis
      by simp
  qed
qed

lemma merge_defaults: "baseMerge [(''method'', JStr method)] defaultOptions = Some (defaultConfig method)"
  by (simp add: defaultOptions_def defaultConfig_def defaultHeaders_def isObject_def safeGet_def
      assignMergeValue_def)

lemma mergeOptions_None: "mergeOptions method None = Some (defaultConfig method)"
  by (simp add: mergeOptions_def merge_defaults)

lemma mergeOptions_Some: "mergeOptions method (Some options) = baseMerge (defaultConfig method) options"
  by (simp add: mergeOptions_def merge_defaults split: option.splits)

lemma defaultHeaders_not_object: "\<not> isObject (safeGet defaultHeaders k)"
  by (simp add: defaultHeaders_def safeGet_def isObject_def)

lemma defaultHeaders_not_arrayLike: "\<not> isArrayLike defaultHeaders"
  by (simp add: defaultHeaders_def isArrayLike_def)

lemma defaultConfig_not_object: "k \<noteq> ''headers'' \<Longrightarrow> \<not> isObject (safeGet (defaultConfig method) k)"
  by (simp add: defaultConfig_def safeGet_def isObject_def)

lemma defaultConfig_headers: "safeGet (defaultConfig method) ''headers'' = JObj defaultHeaders"
  by (simp add: defaultConfig_def safeGet_def)

lemma merge_headers_success:
  assumes "wf_props headers"
  shows "baseMerge defaultHeaders headers \<noteq> None"
proof (rule baseMerge_success)
  show "distinct (map fst headers)"
    using assms by (rule wf_props_distinct)
next
  fix k v
  assume "(k, v) \<in> set headers"
  with assms have "wf_val v"
    by (rule wf_props_val)
  then show "baseMergeDeep (safeGet defaultHeaders k) v \<noteq> None"
    by (simp add: clone(2) defaultHeaders_not_object)
qed

lemma merge_into_headers_success:
  assumes "wf_val v"
  shows "baseMergeDeep (JObj defaultHeaders) v \<noteq> None"
proof (cases v)
  case (JObj headers)
  with assms merge_headers_success [of headers] show ?thesis
    by auto
next
  case (JArr elems)
  with assms show ?thesis
    by (simp add: defaultHeaders_not_arrayLike clone(3))
qed simp_all

lemma mergeOptions_success:
  assumes "wf_props options"
  shows "mergeOptions method (Some options) \<noteq> None"
  unfolding mergeOptions_Some
proof (rule baseMerge_success)
  show "distinct (map fst options)"
    using assms by (rule wf_props_distinct)
next
  fix k v
  assume "(k, v) \<in> set options"
  with assms have w: "wf_val v"
    by (rule wf_props_val)
  show "baseMergeDeep (safeGet (defaultConfig method) k) v \<noteq> None"
  proof (cases "k = ''headers''")
    case True
    with w show ?thesis
      by (simp add: defaultConfig_headers merge_into_headers_success)
  next
    case False
    with w show ?thesis
      by (simp add: clone(2) defaultConfig_not_object)
  qed
qed

lemma mergeOptions_lookup:
  assumes "wf_props options" and "mergeOptions method (Some options) = Some cfg"
  shows "map_of cfg k = (case map_of options k of None \<Rightarrow> map_of (defaultConfig method) k
                         | Some v \<Rightarrow> mergedValue (defaultConfig method) k v)"
  using assms baseMerge_lookup [OF wf_props_distinct]
  by (simp add: mergeOptions_Some)


lemma mergedValue_not_object:
  assumes "wf_val v" and "\<not> isObject (safeGet object k)"
  shows "mergedValue object k v
           = (if v = JUndefined \<and> map_of object k \<noteq> None then map_of object k else Some v)"
  using assms by (auto simp: mergedValue_def clone(2) isObject_def)

lemma mergeOptions_method:
  assumes "wf_props options" and "map_of options ''method'' = Some M" and "M \<noteq> JUndefined"
  shows "\<exists>cfg. mergeOptions method (Some options) = Some cfg \<and> map_of cfg ''method'' = Some M"
proof -
  from mergeOptions_success [OF assms(1)]
  obtain cfg where c: "mergeOptions method (Some options) = Some cfg"
    by blast
  from assms(1,2) have w: "wf_val M"
    by (auto dest: map_of_SomeD wf_props_val)
  have "map_of cfg ''method'' = mergedValue (defaultConfig method) ''method'' M"
    using mergeOptions_lookup [OF assms(1) c, of "''method''"] assms(2) by simp
  also have "\<dots> = Some M"
    using assms(3) by (simp add: mergedValue_not_object [OF w] defaultConfig_not_object)
  finally show ?thesis
    using c by blast
qed

text \<open>
  C9. Caller options are merged last: when the options hold the key \<open>method\<close> with a
  value \<open>M\<close> other than \<open>undefined\<close>, each of \<open>get\<close>, \<open>post\<close>, \<open>put\<close> and \<open>delete_\<close>
  dispatches a request whose method is \<open>M\<close>, not its own method constant.
\<close>

theorem caller_method_wins:
  assumes "wf_props options" and "map_of options ''method'' = Some M" and "M \<noteq> JUndefined"
  shows "(\<exists>cfg. mergeOptions ''GET'' (Some options) = Some cfg \<and> map_of cfg ''method'' = Some M
            \<and> get fetch url (Some options) = Some (then_p (fetch url cfg) handleResponse))
       \<and> (\<exists>cfg. mergeOptions ''POST'' (Some options) = Some cfg \<and> map_of cfg ''method'' = Some M
            \<and> post fetch url (Some options) = Some (then_p (fetch url cfg) handleResponse))
       \<and> (\<exists>cfg. mergeOptions ''PUT'' (Some options) = Some cfg \<and> map_of cfg ''method'' = Some M
            \<and> put fetch url (Some options) = Some (then_p (fetch url cfg) handleResponse))
       \<and> (\<exists>cfg. mergeOptions ''DELETE'' (Some options) = Some cfg \<and> map_of cfg ''method'' = Some M
            \<and> delete' fetch url (Some options) = Some (then_p (fetch url cfg) handleResponse))"
  using mergeOptions_method [OF assms, of "''GET''"] mergeOptions_method [OF assms, of "''POST''"]
    mergeOptions_method [OF assms, of "''PUT''"] mergeOptions_method [OF assms, of "''DELETE''"]
  by (auto simp: get_def post_def put_def delete'_def then_p_Resolved)

theorem caller_method_wins_witness:
  "\<exists>cfg. mergeOptions ''GET'' (Some [(''method'', JStr ''HEAD'')]) = Some cfg
         \<and> map_of cfg ''method'' = Some (JStr ''HEAD'')
         \<and> get (\<lambda>url options. Rejected (Failure ''offline'')) ''/api'' (Some [(''method'', JStr ''HEAD'')])
             = Some (Rejected (Failure ''offline''))"
  using caller_method_wins [of "[(''method'', JStr ''HEAD'')]" "JStr ''HEAD''"
      "\<lambda>url options. Rejected (Failure ''offline'')" "''/api''"]
  by auto

text \<open>
  A \<open>method\<close> key whose value is \<open>undefined\<close> is skipped by the merge: the request of
  \<open>get\<close> keeps the method \<open>GET\<close>.
\<close>

theorem undefined_method_counterexample:
  "map_of [(''method'', JUndefined)] ''method'' = Some JUndefined
   \<and> mergeOptions ''GET'' (Some [(''method'', JUndefined)])
       = Some [(''method'', JStr ''GET''),
               (''headers'', JObj [(''Accept'', JStr ''application/json''),
                                   (''Content-Type'', JStr ''application/json''),
                                   (''X-Requested-With'', JStr ''XMLHttpRequest'')]),
               (''credentials'', JStr ''same-origin'')]"
  by (simp add: mergeOptions_Some defaultConfig_def defaultHeaders_def isObject_def
      assignMergeValue_def)

lemma defaultHeaders_lookup:
  assumes "wf_props headers" and "baseMerge defaultHeaders headers = Some merged"
  shows "map_of merged k
           = (case map_of headers k of
                None \<Rightarrow> map_of defaultHeaders k
              | Some v \<Rightarrow> if v = JUndefined \<and> map_of defaultHeaders k \<noteq> None
                          then map_of defaultHeaders k else Some v)"
proof (cases "map_of headers k")
  case None
  with baseMerge_lookup [OF wf_props_distinct [OF assms(1)] assms(2), of k] show ?thesis
    by simp
next
  case (Some v)
  with assms(1) have "wf_val v"
    by (auto dest: map_of_SomeD wf_props_val)
  with Some baseMerge_lookup [OF wf_props_distinct [OF assms(1)] assms(2), of k] show ?thesis
    by (simp add: mergedValue_not_object defaultHeaders_not_object)
qed

lemma mergeOptions_headers:
  assumes "wf_props options" and "map_of options ''headers'' = Some (JObj headers)"
  shows "\<exists>cfg merged. mergeOptions method (Some options) = Some cfg
           \<and> map_of cfg ''headers'' = Some (JObj merged)
           \<and> baseMerge defaultHeaders headers = Some merged"
proof -
  from mergeOptions_success [OF assms(1)]
  obtain cfg where c: "mergeOptions method (Some options) = Some cfg"
    by blast
  from assms have w: "wf_props headers"
    by (auto dest!: map_of_SomeD wf_props_val)
  with merge_headers_success obtain merged where m: "baseMerge defaultHeaders headers = Some merged"
    by blast
  have "map_of cfg ''headers'' = mergedValue (defaultConfig method) ''headers'' (JObj headers)"
    using mergeOptions_lookup [OF assms(1) c, of "''headers''"] assms(2) by simp
  also have "\<dots> = Some (JObj merged)"
    by (simp add: mergedValue_def isObject_def defaultConfig_headers m)
  finally show ?thesis
    using c m by blast
qed


text \<open>
  C4. The caller's \<open>headers\<close> are merged with the default headers key by key: the merged
  headers hold, for every key, the caller's value where the caller sets one (an \<open>undefined\<close>
  over a default aside, which leaves the default) and the default otherwise. Options with
  only \<open>{headers: {Accept: 'text/plain'}}\<close> give \<open>Accept: text/plain\<close> beside the default
  \<open>Content-Type\<close> and \<open>X-Requested-With\<close>.
\<close>

theorem headers_merge_by_key:
  "(wf_props options \<and> map_of options ''headers'' = Some (JObj headers) \<longrightarrow>
      (\<exists>cfg merged. mergeOptions method (Some options) = Some cfg
          \<and> map_of cfg ''headers'' = Some (JObj merged)
          \<and> (\<forall>k. map_of merged k
                    = (case map_of headers k of
                         None \<Rightarrow> map_of defaultHeaders k
                       | Some v \<Rightarrow> if v = JUndefined \<and> map_of defaultHeaders k \<noteq> None
                                   then map_of defaultHeaders k else Some v))))
   \<and> mergeOptions method (Some [(''headers'', JObj [(''Accept'', JStr ''text/plain'')])])
       = Some [(''method'', JStr method),
               (''headers'', JObj [(''Accept'', JStr ''text/plain''),
                                   (''Content-Type'', JStr ''application/json''),
                                   (''X-Requested-With'', JStr ''XMLHttpRequest'')]),
               (''credentials'', JStr ''same-origin'')]"
proof (intro conjI impI)
  assume a: "wf_props options \<and> map_of options ''headers'' = Some (JObj headers)"
  then have w: "wf_props headers"
    by (auto dest!: map_of_SomeD wf_props_val)
  from a mergeOptions_headers [of options headers "method"]
  obtain cfg merged where c: "mergeOptions method (Some options) = Some cfg"
    and h: "map_of cfg ''headers'' = Some (JObj merged)"
    and m: "baseMerge defaultHeaders headers = Some merged"
    by blast
  from c h defaultHeaders_lookup [OF w m]
  show "\<exists>cfg merged. mergeOptions method (Some options) = Some cfg
          \<and> map_of cfg ''headers'' = Some (JObj merged)
          \<and> (\<forall>k. map_of merged k
                    = (case map_of headers k of
                         None \<Rightarrow> map_of defaultHeaders k
                       | Some v \<Rightarrow> if v = JUndefined \<and> map_of defaultHeaders k \<noteq> None
                                   then map_of defaultHeaders k else Some v))"
    by blast
next
  show "mergeOptions method (Some [(''headers'', JObj [(''Accept'', JStr ''text/plain'')])])
       = Some [(''method'', JStr method),
               (''headers'', JObj [(''Accept'', JStr ''text/plain''),
                                   (''Content-Type'', JStr ''application/json''),
                                   (''X-Requested-With'', JStr ''XMLHttpRequest'')]),
               (''credentials'', JStr ''same-origin'')]"
    by (simp add: mergeOptions_Some defaultConfig_def defaultHeaders_def isObject_def
        assignMergeValue_def safeGet_def)
qed

theorem headers_merge_by_key_witness:
  "\<exists>cfg merged. mergeOptions ''GET'' (Some [(''headers'', JObj [(''Accept'', JStr ''text/plain'')])]) = Some cfg
      \<and> map_of cfg ''headers'' = Some (JObj merged)
      \<and> map_of merged ''Accept'' = Some (JStr ''text/plain'')
      \<and> map_of merged ''Content-Type'' = Some (JStr ''application/json'')
      \<and> map_of merged ''X-Requested-With'' = Some (JStr ''XMLHttpRequest'')"
proof -
  let ?options = "[(''headers'', JObj [(''Accept'', JStr ''text/plain'')])]"
  have "wf_props ?options \<and> map_of ?options ''headers'' = Some (JObj [(''Accept'', JStr ''text/plain'')])"
    by simp
  with headers_merge_by_key [of ?options "[(''Accept'', JStr ''text/plain'')]" "''GET''"]
  obtain cfg merged where c: "mergeOptions ''GET'' (Some ?options) = Some cfg"
    and h: "map_of cfg ''headers'' = Some (JObj merged)"
    and m: "\<And>k. map_of merged k
                    = (case map_of [(''Accept'', JStr ''text/plain'')] k of
                         None \<Rightarrow> map_of defaultHeaders k
                       | Some v \<Rightarrow> if v = JUndefined \<and> map_of defaultHeaders k \<noteq> None
                                   then map_of defaultHeaders k else Some v)"
    by blast
  from m [of "''Accept''"] m [of "''Content-Type''"] m [of "''X-Requested-With''"]
  have "map_of merged ''Accept'' = Some (JStr ''text/plain'')"
    and "map_of merged ''Content-Type'' = Some (JStr ''application/json'')"
    and "map_of merged ''X-Requested-With'' = Some (JStr ''XMLHttpRequest'')"
    by (simp_all add: defaultHeaders_def)
  with c h show ?thesis
    by blast
qed

text \<open>
  C2. For options that override nothing (\<open>overridesNothing\<close>), \<open>get(url, options)\<close>
  dispatches a request with method \<open>GET\<close>, the three default headers and credentials
  \<open>same-origin\<close>.
\<close>

theorem defaults_kept:
  assumes "overridesNothing options'"
  shows "\<exists>cfg headers. mergeOptions ''GET'' options' = Some cfg
           \<and> get fetch url options' = Some (then_p (fetch url cfg) handleResponse)
           \<and> map_of cfg ''method'' = Some (JStr ''GET'')
           \<and> map_of cfg ''credentials'' = Some (JStr ''same-origin'')
           \<and> map_of cfg ''headers'' = Some (JObj headers)
           \<and> map_of headers ''Accept'' = Some (JStr ''application/json'')
           \<and> map_of headers ''Content-Type'' = Some (JStr ''application/json'')
           \<and> map_of headers ''X-Requested-With'' = Some (JStr ''XMLHttpRequest'')"
proof (cases options')
  case None
  then show ?thesis
    by (simp add: get_def mergeOptions_None then_p_Resolved defaultConfig_def defaultHeaders_def)
next
  case (Some options)
  with assms have w: "wf_props options" and nm: "map_of options ''method'' = None"
    and nc: "map_of options ''credentials'' = None"
    by simp_all
  from mergeOptions_success [OF w]
  obtain cfg where c: "mergeOptions ''GET'' (Some options) = Some cfg"
    by blast
  note look = mergeOptions_lookup [OF w c]
  from look [of "''method''"] nm have m: "map_of cfg ''method'' = Some (JStr ''GET'')"
    by (simp add: defaultConfig_def)
  from look [of "''credentials''"] nc have cr: "map_of cfg ''credentials'' = Some (JStr ''same-origin'')"
    by (simp add: defaultConfig_def)
  have g: "get fetch url (Some options) = Some (then_p (fetch url cfg) handleResponse)"
    by (simp add: get_def c then_p_Resolved)
  have "\<exists>headers. map_of cfg ''headers'' = Some (JObj headers)
           \<and> map_of headers ''Accept'' = Some (JStr ''application/json'')
           \<and> map_of headers ''Content-Type'' = Some (JStr ''application/json'')
           \<and> map_of headers ''X-Requested-With'' = Some (JStr ''XMLHttpRequest'')"
  proof (cases "map_of options ''headers''")
    case None
    with look [of "''headers''"] show ?thesis
      by (simp add: defaultConfig_def defaultHeaders_def)
  next
    case (Some v)
    with assms \<open>options' = Some options\<close> obtain hs where v: "v = JObj hs"
      and n: "map_of hs ''Accept'' = None" "map_of hs ''Content-Type'' = None"
        "map_of hs ''X-Requested-With'' = None"
      by (cases v) simp_all
    from w Some v have wh: "wf_props hs"
      by (auto dest!: map_of_SomeD wf_props_val)
    from mergeOptions_headers [OF w Some [unfolded v], of "''GET''"] c
    obtain merged where h: "map_of cfg ''headers'' = Some (JObj merged)"
      and mg: "baseMerge defaultHeaders hs = Some merged"
      by auto
    from defaultHeaders_lookup [OF wh mg] n h show ?thesis
      by (simp add: defaultHeaders_def)
  qed
  with c g m cr Some show ?thesis
    by blast
qed

theorem defaults_kept_witness:
  "\<exists>cfg headers. mergeOptions ''GET'' (Some [(''body'', JStr ''{}'')]) = Some cfg
      \<and> map_of cfg ''method'' = Some (JStr ''GET'')
      \<and> map_of cfg ''credentials'' = Some (JStr ''same-origin'')
      \<and> map_of cfg ''headers'' = Some (JObj headers)
      \<and> map_of headers ''Accept'' = Some (JStr ''application/json'')
      \<and> map_of headers ''Content-Type'' = Some (JStr ''application/json'')
      \<and> map_of headers ''X-Requested-With'' = Some (JStr ''XMLHttpRequest'')"
proof -
  have "overridesNothing (Some [(''body'', JStr ''{}'')])"
    by simp
  from defaults_kept [OF this, of "\<lambda>url options. Rejected (Failure ''offline'')" "''/api''"]
  show ?thesis
    by blast
qed

text \<open>
  Options without a \<open>method\<close> key and without a \<open>Content-Type\<close> header can still override
  \<open>Accept\<close>, \<open>X-Requested-With\<close> and \<open>credentials\<close>.
\<close>

theorem overriding_options_counterexample:
  "map_of [(''headers'', JObj [(''Accept'', JStr ''text/plain''), (''X-Requested-With'', JStr ''fetch'')]),
           (''credentials'', JStr ''include'')] ''method'' = None
   \<and> map_of [(''Accept'', JStr ''text/plain''), (''X-Requested-With'', JStr ''fetch'')] ''Content-Type'' = None
   \<and> mergeOptions ''GET''
        (Some [(''headers'', JObj [(''Accept'', JStr ''text/plain''), (''X-Requested-With'', JStr ''fetch'')]),
               (''credentials'', JStr ''include'')])
       = Some [(''method'', JStr ''GET''),
               (''headers'', JObj [(''Accept'', JStr ''text/plain''),
                                   (''Content-Type'', JStr ''application/json''),
                                   (''X-Requested-With'', JStr ''fetch'')]),
               (''credentials'', JStr ''include'')]"
  by (simp add: mergeOptions_Some defaultConfig_def defaultHeaders_def isObject_def
      assignMergeValue_def safeGet_def)

section \<open>Properties of the merge in a store\<close>

lemma moduleInv_length: "moduleInv s \<Longrightarrow> 2 \<le> length s"
  by (auto simp: moduleInv_def moduleStore_def dest!: arg_cong [where f = length])



























lemma moduleInv_lookup:
  assumes "moduleInv s"
  shows "lookupS s 0 = Some (PlainObject [(''headers'', HRef 1), (''credentials'', HStr ''same-origin'')])"
    and "lookupS s 1 = Some (PlainObject [(''Accept'', HStr ''application/json''),
                   (''Content-Type'', HStr ''application/json''),
                   (''X-Requested-With'', HStr ''XMLHttpRequest'')])"
proof -
  from assms have t: "take 2 s = moduleStore" and l: "2 \<le> length s"
    by (simp_all add: moduleInv_def moduleInv_length)
  from l have "s ! 0 = take 2 s ! 0" and "s ! 1 = take 2 s ! 1"
    by simp_all
  with t l show "lookupS s 0 = Some (PlainObject [(''headers'', HRef 1), (''credentials'', HStr ''same-origin'')])"
    and "lookupS s 1 = Some (PlainObject [(''Accept'', HStr ''application/json''),
                   (''Content-Type'', HStr ''application/json''),
                   (''X-Requested-With'', HStr ''XMLHttpRequest'')])"
    by (auto simp: lookupS_def moduleStore_def)
qed

lemma mergeOptionsS_no_options:
  assumes "moduleInv s"
  shows "mergeOptionsS (Suc (Suc fuel)) method HUndefined s
           = Some (length s,
                   s @ [PlainObject [(''method'', HStr method),
                                     (''headers'', HRef (Suc (length s))),
                                     (''credentials'', HStr ''same-origin'')],
                        PlainObject [(''Accept'', HStr ''application/json''),
                                     (''Content-Type'', HStr ''application/json''),
                                     (''X-Requested-With'', HStr ''XMLHttpRequest'')]])"
proof -
  from moduleInv_lookup [OF assms] moduleInv_length [OF assms]
  have n: "s ! 0 = PlainObject [(''headers'', HRef 1), (''credentials'', HStr ''same-origin'')]"
    "s ! Suc 0 = PlainObject [(''Accept'', HStr ''application/json''),
                   (''Content-Type'', HStr ''application/json''),
                   (''X-Requested-With'', HStr ''XMLHttpRequest'')]"
    and l: "0 < length s" "Suc 0 < length s" "length s \<noteq> 0" "length s \<noteq> Suc 0" "s \<noteq> []"
    by (auto simp: lookupS_def split: if_splits)
  show ?thesis
    by (simp add: mergeOptionsS_def alloc_def defaultOptionsS_def isFalsy_def lookupS_def
        getProp_def assignProp_def baseMergeDeepS_def nth_append n l list_update_append)
qed



text \<open>On the caller's options above, the configuration in the store reads as the merged value.\<close>

lemma store_agrees_with_values:
  "(case mergeOptionsS 2 ''PUT'' (HRef 2) callerStore of
      None \<Rightarrow> None
    | Some (cfg, s1) \<Rightarrow> readS 3 s1 (HRef cfg))
   = map_option JObj
       (mergeOptions ''PUT''
          (Some [(''headers'', JObj [(''Accept'', JStr ''text/plain'')]), (''body'', JStr ''{}'')]))"
  by code_simp

end
